theory Spec2Isabelle
  imports Main
begin

section \<open>JavaScript values at the boundary\<close>

text \<open>
  A value thrown by an external call is either an \<open>Error\<close> instance carrying a message or
  some other value. The catch blocks of the services read it with
  \<^verbatim>\<open>error instanceof Error ? error.message : fallback\<close>.
\<close>

datatype thrown = Error string | NonError

fun error_message :: "thrown \<Rightarrow> string \<Rightarrow> string" where
  "error_message (Error m) fallback = m"
| "error_message NonError fallback = fallback"

text \<open>
  An optional key of an object literal is missing, or is an own property holding
  \<open>undefined\<close> (\<open>Present None\<close>) or a value. Reading a missing key yields \<open>undefined\<close>.
\<close>

datatype 'a property = Absent | Present "'a option"

fun read :: "'a property \<Rightarrow> 'a option" where
  "read Absent = None"
| "read (Present v) = v"

text \<open>
  Object spread \<^verbatim>\<open>{ key: d, ...config }\<close> for one key: every own property of the later
  object overrides, whatever it holds; only a missing key leaves the earlier value.
\<close>

fun spread_key :: "'a \<Rightarrow> 'a property \<Rightarrow> 'a property" where
  "spread_key d Absent = Present (Some d)"
| "spread_key d (Present v) = Present v"

text \<open>\<^verbatim>\<open>s || d\<close> on a possibly undefined string: undefined and the empty string are falsy.\<close>

fun str_or :: "string option \<Rightarrow> string \<Rightarrow> string" where
  "str_or None d = d"
| "str_or (Some s) d = (if s = [] then d else s)"

text \<open>\<^verbatim>\<open>!b\<close> on a possibly undefined boolean reads undefined as false.\<close>

fun truthy :: "bool option \<Rightarrow> bool" where
  "truthy None = False"
| "truthy (Some b) = b"

text \<open>
  Reading \<^verbatim>\<open>.length\<close> of \<open>undefined\<close> throws a TypeError; the message text is the engine's.
\<close>

definition undefined_length_message :: string where
  "undefined_length_message = ''Cannot read properties of undefined (reading 'length')''"

fun length_of :: "'a list option \<Rightarrow> thrown + nat" where
  "length_of None = Inl (Error undefined_length_message)"
| "length_of (Some xs) = Inr (length xs)"

text \<open>
  \<^verbatim>\<open>String.prototype.trim\<close> and \<^verbatim>\<open>startsWith\<close>. Characters are code units below 256; the
  white space among them is tab, line feed, vertical tab, form feed, carriage return,
  space and the no-break space.
\<close>

definition is_white_space :: "char \<Rightarrow> bool" where
  "is_white_space c \<longleftrightarrow> of_char c \<in> {9, 10, 11, 12, 13, 32, 160 :: nat}"

definition trim :: "string \<Rightarrow> string" where
  "trim s = rev (dropWhile is_white_space (rev (dropWhile is_white_space s)))"

definition startsWith :: "string \<Rightarrow> string \<Rightarrow> bool" where
  "startsWith s p \<longleftrightarrow> take (length p) s = p"

section \<open>Results of the version-control client\<close>

record FileStatusResult =
  path :: string
  index :: string
  working_dir :: string

record StatusResult =
  files :: "FileStatusResult list"
  modified :: "string list"
  created :: "string list"
  deleted :: "string list"
  not_added :: "string list"
  ahead :: nat
  behind :: nat

record PullResult =
  pull_files :: "string list"

record RemoteRefs =
  fetch :: string
  push_ref :: string

record Remote =
  name :: string
  refs :: "RemoteRefs option"

record LogEntry =
  hash :: string
  message :: string
  author_name :: string
  date :: string

record LogResult =
  latest :: "LogEntry option"

section \<open>The outside world\<close>

text \<open>
  The file system, the version-control client, the clock and \<^verbatim>\<open>path.dirname\<close> live outside
  the repository. They are parameters: each operation takes its arguments and the world and
  yields what it returns or throws, and the world after it. \<open>simpleGit\<close> is the factory
  \<^verbatim>\<open>simpleGit(dir)\<close> that builds a client bound to a directory; like every external call it
  may throw. The git operations of a client take the directory the client is bound to
  first; \<open>git_clone\<close> belongs to the client the constructor built with \<^verbatim>\<open>simpleGit()\<close>, bound
  to no directory.
\<close>

record 'w sys =
  fs_ensureDir :: "string \<Rightarrow> 'w \<Rightarrow> (thrown + unit) \<times> 'w"
  fs_readFile :: "string \<Rightarrow> 'w \<Rightarrow> (thrown + string) \<times> 'w"
  fs_readdir :: "string \<Rightarrow> 'w \<Rightarrow> (thrown + string list) \<times> 'w"
  path_dirname :: "string \<Rightarrow> string"
  date_now :: "'w \<Rightarrow> nat"
  toISOString :: "nat \<Rightarrow> string"
  simpleGit :: "string \<Rightarrow> 'w \<Rightarrow> (thrown + unit) \<times> 'w"
  git_status :: "string \<Rightarrow> 'w \<Rightarrow> (thrown + StatusResult) \<times> 'w"
  git_revparse :: "string \<Rightarrow> string list \<Rightarrow> 'w \<Rightarrow> (thrown + string) \<times> 'w"
  git_getRemotes :: "string \<Rightarrow> bool \<Rightarrow> 'w \<Rightarrow> (thrown + Remote list) \<times> 'w"
  git_log :: "string \<Rightarrow> nat \<Rightarrow> 'w \<Rightarrow> (thrown + LogResult) \<times> 'w"
  git_fetch :: "string \<Rightarrow> 'w \<Rightarrow> (thrown + unit) \<times> 'w"
  git_pull :: "string \<Rightarrow> string \<Rightarrow> string option \<Rightarrow> 'w \<Rightarrow> (thrown + PullResult) \<times> 'w"
  git_add :: "string \<Rightarrow> string \<Rightarrow> 'w \<Rightarrow> (thrown + unit) \<times> 'w"
  git_commit :: "string \<Rightarrow> string \<Rightarrow> 'w \<Rightarrow> (thrown + unit) \<times> 'w"
  git_push :: "string \<Rightarrow> string \<Rightarrow> string option \<Rightarrow> 'w \<Rightarrow> (thrown + unit) \<times> 'w"
  git_clone :: "string \<Rightarrow> string \<Rightarrow> 'w \<Rightarrow> (thrown + unit) \<times> 'w"
  git_submoduleInit :: "string \<Rightarrow> 'w \<Rightarrow> (thrown + unit) \<times> 'w"
  git_submoduleUpdate :: "string \<Rightarrow> 'w \<Rightarrow> (thrown + unit) \<times> 'w"

text \<open>Every call that leaves the process is recorded, in order, with its arguments.\<close>

datatype call =
    EnsureDir string
  | ReadFile string
  | Readdir string
  | SimpleGit string
  | Status string
  | Revparse string "string list"
  | GetRemotes string bool
  | Log string nat
  | Fetch string
  | Pull string string "string option"
  | Add string string
  | Commit string string
  | Push string string "string option"
  | Clone string string
  | SubmoduleInit string
  | SubmoduleUpdate string

record 'w machine =
  world :: 'w
  calls :: "call list"

definition invoke ::
  "call \<Rightarrow> ('w \<Rightarrow> (thrown + 'a) \<times> 'w) \<Rightarrow> ('w, 'z) machine_scheme
    \<Rightarrow> (thrown + 'a) \<times> ('w, 'z) machine_scheme" where
  "invoke c f s =
     (case f (world s) of (r, w') \<Rightarrow> (r, s\<lparr>world := w', calls := calls s @ [c]\<rparr>))"

section \<open>RainfallContentSyncService\<close>

record ContentSyncConfig =
  ceresRepositoryUrl :: string
  localContentPath :: string
  branch :: "string property"
  autoCommit :: "bool property"
  includePaths :: "string list property"
  excludePaths :: "string list property"
  verbose :: "bool property"

record SyncResult =
  success :: bool
  changes :: "string list"
  errors :: "string list"
  timestamp :: nat

text \<open>The service object holds \<open>config\<close>; it lives beside the world and the call record.\<close>

record 'w service = "'w machine" +
  config :: ContentSyncConfig

text \<open>
  The constructor: the defaults first, then the spread of the given configuration.
  (\<^verbatim>\<open>simpleGit()\<close>, bound to the directory the process runs in, and the binding of
  \<^verbatim>\<open>log\<close> keep no state of interest;
  \<^verbatim>\<open>log\<close> only writes to the console and is left out of the model throughout.)
\<close>

definition merge_defaults :: "ContentSyncConfig \<Rightarrow> ContentSyncConfig" where
  "merge_defaults c =
     \<lparr> ceresRepositoryUrl = ceresRepositoryUrl c,
       localContentPath = localContentPath c,
       branch = spread_key ''main'' (branch c),
       autoCommit = spread_key True (autoCommit c),
       includePaths = spread_key [] (includePaths c),
       excludePaths = spread_key [''.git'', ''node_modules'', ''.DS_Store''] (excludePaths c),
       verbose = spread_key False (verbose c) \<rparr>"

definition new_service :: "ContentSyncConfig \<Rightarrow> 'w machine \<Rightarrow> 'w service" where
  "new_service c m = \<lparr> world = world m, calls = calls m, config = merge_defaults c \<rparr>"

text \<open>One wrapper for each external call: the call is recorded, then made.\<close>

definition call_ensureDir :: "'w sys \<Rightarrow> string \<Rightarrow> ('w, 'z) machine_scheme \<Rightarrow> (thrown + unit) \<times> ('w, 'z) machine_scheme" where
  "call_ensureDir sys d = invoke (EnsureDir d) (fs_ensureDir sys d)"

definition call_readFile :: "'w sys \<Rightarrow> string \<Rightarrow> ('w, 'z) machine_scheme \<Rightarrow> (thrown + string) \<times> ('w, 'z) machine_scheme" where
  "call_readFile sys f = invoke (ReadFile f) (fs_readFile sys f)"

definition call_readdir :: "'w sys \<Rightarrow> string \<Rightarrow> ('w, 'z) machine_scheme \<Rightarrow> (thrown + string list) \<times> ('w, 'z) machine_scheme" where
  "call_readdir sys d = invoke (Readdir d) (fs_readdir sys d)"

definition call_simpleGit :: "'w sys \<Rightarrow> string \<Rightarrow> ('w, 'z) machine_scheme \<Rightarrow> (thrown + unit) \<times> ('w, 'z) machine_scheme" where
  "call_simpleGit sys d = invoke (SimpleGit d) (simpleGit sys d)"

definition call_status :: "'w sys \<Rightarrow> string \<Rightarrow> ('w, 'z) machine_scheme \<Rightarrow> (thrown + StatusResult) \<times> ('w, 'z) machine_scheme" where
  "call_status sys d = invoke (Status d) (git_status sys d)"

definition call_revparse :: "'w sys \<Rightarrow> string \<Rightarrow> string list \<Rightarrow> ('w, 'z) machine_scheme \<Rightarrow> (thrown + string) \<times> ('w, 'z) machine_scheme" where
  "call_revparse sys d args = invoke (Revparse d args) (git_revparse sys d args)"

definition call_getRemotes :: "'w sys \<Rightarrow> string \<Rightarrow> bool \<Rightarrow> ('w, 'z) machine_scheme \<Rightarrow> (thrown + Remote list) \<times> ('w, 'z) machine_scheme" where
  "call_getRemotes sys d v = invoke (GetRemotes d v) (git_getRemotes sys d v)"

definition call_log :: "'w sys \<Rightarrow> string \<Rightarrow> nat \<Rightarrow> ('w, 'z) machine_scheme \<Rightarrow> (thrown + LogResult) \<times> ('w, 'z) machine_scheme" where
  "call_log sys d n = invoke (Log d n) (git_log sys d n)"

definition call_fetch :: "'w sys \<Rightarrow> string \<Rightarrow> ('w, 'z) machine_scheme \<Rightarrow> (thrown + unit) \<times> ('w, 'z) machine_scheme" where
  "call_fetch sys d = invoke (Fetch d) (git_fetch sys d)"

definition call_pull :: "'w sys \<Rightarrow> string \<Rightarrow> string \<Rightarrow> string option \<Rightarrow> ('w, 'z) machine_scheme \<Rightarrow> (thrown + PullResult) \<times> ('w, 'z) machine_scheme" where
  "call_pull sys d r b = invoke (Pull d r b) (git_pull sys d r b)"

definition call_add :: "'w sys \<Rightarrow> string \<Rightarrow> string \<Rightarrow> ('w, 'z) machine_scheme \<Rightarrow> (thrown + unit) \<times> ('w, 'z) machine_scheme" where
  "call_add sys d f = invoke (Add d f) (git_add sys d f)"

definition call_commit :: "'w sys \<Rightarrow> string \<Rightarrow> string \<Rightarrow> ('w, 'z) machine_scheme \<Rightarrow> (thrown + unit) \<times> ('w, 'z) machine_scheme" where
  "call_commit sys d m = invoke (Commit d m) (git_commit sys d m)"

definition call_push :: "'w sys \<Rightarrow> string \<Rightarrow> string \<Rightarrow> string option \<Rightarrow> ('w, 'z) machine_scheme \<Rightarrow> (thrown + unit) \<times> ('w, 'z) machine_scheme" where
  "call_push sys d r b = invoke (Push d r b) (git_push sys d r b)"

definition call_clone :: "'w sys \<Rightarrow> string \<Rightarrow> string \<Rightarrow> ('w, 'z) machine_scheme \<Rightarrow> (thrown + unit) \<times> ('w, 'z) machine_scheme" where
  "call_clone sys url d = invoke (Clone url d) (git_clone sys url d)"

definition call_submoduleInit :: "'w sys \<Rightarrow> string \<Rightarrow> ('w, 'z) machine_scheme \<Rightarrow> (thrown + unit) \<times> ('w, 'z) machine_scheme" where
  "call_submoduleInit sys d = invoke (SubmoduleInit d) (git_submoduleInit sys d)"

definition call_submoduleUpdate :: "'w sys \<Rightarrow> string \<Rightarrow> ('w, 'z) machine_scheme \<Rightarrow> (thrown + unit) \<times> ('w, 'z) machine_scheme" where
  "call_submoduleUpdate sys d = invoke (SubmoduleUpdate d) (git_submoduleUpdate sys d)"

subsection \<open>initialize\<close>

definition isGitSubmodule :: "'w sys \<Rightarrow> string \<Rightarrow> 'w service \<Rightarrow> bool \<times> 'w service" where
  "isGitSubmodule sys p s =
     (case call_readFile sys (p @ ''/.git'') s of
        (Inl e, s1) \<Rightarrow> (False, s1)
      | (Inr gitDir, s1) \<Rightarrow> (startsWith (trim gitDir) ''gitdir:'', s1))"

definition initializeSubmodule :: "'w sys \<Rightarrow> 'w service \<Rightarrow> (thrown + unit) \<times> 'w service" where
  "initializeSubmodule sys s =
     (let parent = path_dirname sys (localContentPath (config s)) in
      case call_simpleGit sys parent s of
        (Inl e, s0) \<Rightarrow> (Inl e, s0)
      | (Inr _, s0) \<Rightarrow>
          (case call_submoduleInit sys parent s0 of
             (Inl e, s1) \<Rightarrow> (Inl e, s1)
           | (Inr _, s1) \<Rightarrow> call_submoduleUpdate sys parent s1))"

definition initializeStandaloneClone :: "'w sys \<Rightarrow> 'w service \<Rightarrow> (thrown + unit) \<times> 'w service" where
  "initializeStandaloneClone sys s =
     (case call_readdir sys (localContentPath (config s)) s of
        (Inl e, s1) \<Rightarrow> (Inl e, s1)
      | (Inr entries, s1) \<Rightarrow>
          if length entries = 0
          then call_clone sys (ceresRepositoryUrl (config s1)) (localContentPath (config s1)) s1
          else (case call_simpleGit sys (localContentPath (config s1)) s1 of
                  (Inl e, s2) \<Rightarrow> (Inl e, s2)
                | (Inr _, s2) \<Rightarrow>
                    (case call_status sys (localContentPath (config s2)) s2 of
                       (Inl e, s3) \<Rightarrow>
                         (Inl (Error ''Local content directory exists but is not a git repository''),
                          s3)
                     | (Inr _, s3) \<Rightarrow> (Inr (), s3))))"

definition initialize_try :: "'w sys \<Rightarrow> 'w service \<Rightarrow> (thrown + unit) \<times> 'w service" where
  "initialize_try sys s =
     (case call_ensureDir sys (localContentPath (config s)) s of
        (Inl e, s1) \<Rightarrow> (Inl e, s1)
      | (Inr _, s1) \<Rightarrow>
          (case isGitSubmodule sys (localContentPath (config s1)) s1 of
             (isSubmodule, s2) \<Rightarrow>
               if isSubmodule then initializeSubmodule sys s2
               else initializeStandaloneClone sys s2))"

definition initialize :: "'w sys \<Rightarrow> 'w service \<Rightarrow> (thrown + unit) \<times> 'w service" where
  "initialize sys s =
     (case initialize_try sys s of
        (Inl e, s') \<Rightarrow>
          (Inl (Error (''Failed to initialize content sync service: '' @ error_message e ''Unknown error'')), s')
      | (Inr u, s') \<Rightarrow> (Inr u, s'))"

subsection \<open>sync\<close>

text \<open>
  The condition \<^verbatim>\<open>includePaths.length > 0 || excludePaths.length > 0\<close>, left to right with
  short circuit; it throws where the list it reads is \<open>undefined\<close>.
\<close>

definition path_filters_requested :: "ContentSyncConfig \<Rightarrow> thrown + bool" where
  "path_filters_requested c =
     (case length_of (read (includePaths c)) of
        Inl e \<Rightarrow> Inl e
      | Inr n \<Rightarrow>
          if n > 0 then Inr True
          else (case length_of (read (excludePaths c)) of
                  Inl e \<Rightarrow> Inl e
                | Inr m \<Rightarrow> Inr (m > 0)))"

text \<open>\<^verbatim>\<open>applyPathFilters\<close> writes one log line and does nothing else.\<close>

definition applyPathFilters :: "'w service \<Rightarrow> (thrown + unit) \<times> 'w service" where
  "applyPathFilters s = (Inr (), s)"

text \<open>
  The body of the \<^verbatim>\<open>try\<close> block: what it throws (if anything), the result object as the
  body left it, and the state.
\<close>

definition sync_try ::
  "'w sys \<Rightarrow> SyncResult \<Rightarrow> 'w service \<Rightarrow> (thrown + unit) \<times> SyncResult \<times> 'w service" where
  "sync_try sys result s =
     (case call_simpleGit sys (localContentPath (config s)) s of
        (Inl e, s0) \<Rightarrow> (Inl e, result, s0)
      | (Inr _, s0) \<Rightarrow>
     (case call_pull sys (localContentPath (config s0)) ''origin'' (read (branch (config s0))) s0 of
        (Inl e, s1) \<Rightarrow> (Inl e, result, s1)
      | (Inr pullResult, s1) \<Rightarrow>
          (let result1 = (if length (pull_files pullResult) > 0
                          then result\<lparr>changes := pull_files pullResult\<rparr> else result)
           in case path_filters_requested (config s1) of
                Inl e \<Rightarrow> (Inl e, result1, s1)
              | Inr requested \<Rightarrow>
                  (case (if requested then applyPathFilters s1 else (Inr (), s1)) of
                     (Inl e, s2) \<Rightarrow> (Inl e, result1, s2)
                   | (Inr _, s2) \<Rightarrow> (Inr (), result1\<lparr>success := True\<rparr>, s2)))))"

definition sync :: "'w sys \<Rightarrow> 'w service \<Rightarrow> SyncResult \<times> 'w service" where
  "sync sys s =
     (let result = \<lparr> success = False, changes = [], errors = [],
                     timestamp = date_now sys (world s) \<rparr>
      in case sync_try sys result s of
           (Inl e, result', s') \<Rightarrow>
             (result'\<lparr>errors := errors result' @ [error_message e ''Unknown error during sync'']\<rparr>, s')
         | (Inr _, result', s') \<Rightarrow> (result', s'))"

subsection \<open>push\<close>

definition push_try ::
  "'w sys \<Rightarrow> string option \<Rightarrow> SyncResult \<Rightarrow> 'w service
    \<Rightarrow> (thrown + unit) \<times> SyncResult \<times> 'w service" where
  "push_try sys commitMessage result s =
     (if \<not> truthy (read (autoCommit (config s)))
      then (Inl (Error ''Push operation requires autoCommit to be enabled''), result, s)
      else
        (case call_simpleGit sys (localContentPath (config s)) s of
           (Inl e, s0) \<Rightarrow> (Inl e, result, s0)
         | (Inr _, s0) \<Rightarrow>
        (case call_status sys (localContentPath (config s0)) s0 of
           (Inl e, s1) \<Rightarrow> (Inl e, result, s1)
         | (Inr status, s1) \<Rightarrow>
             if length (files status) = 0 then (Inr (), result\<lparr>success := True\<rparr>, s1)
             else
               (case call_add sys (localContentPath (config s1)) ''.'' s1 of
                  (Inl e, s2) \<Rightarrow> (Inl e, result, s2)
                | (Inr _, s2) \<Rightarrow>
                    (let message = str_or commitMessage
                           (''Content sync update - '' @ toISOString sys (date_now sys (world s2)))
                     in case call_commit sys (localContentPath (config s2)) message s2 of
                          (Inl e, s3) \<Rightarrow> (Inl e, result, s3)
                        | (Inr _, s3) \<Rightarrow>
                            (case call_push sys (localContentPath (config s3)) ''origin''
                                    (read (branch (config s3))) s3 of
                               (Inl e, s4) \<Rightarrow> (Inl e, result, s4)
                             | (Inr _, s4) \<Rightarrow>
                                 (Inr (),
                                  result\<lparr>changes := map path (files status), success := True\<rparr>,
                                  s4)))))))"

definition push :: "'w sys \<Rightarrow> string option \<Rightarrow> 'w service \<Rightarrow> SyncResult \<times> 'w service" where
  "push sys commitMessage s =
     (let result = \<lparr> success = False, changes = [], errors = [],
                     timestamp = date_now sys (world s) \<rparr>
      in case push_try sys commitMessage result s of
           (Inl e, result', s') \<Rightarrow>
             (result'\<lparr>errors := errors result' @ [error_message e ''Unknown error during push'']\<rparr>, s')
         | (Inr _, result', s') \<Rightarrow> (result', s'))"

subsection \<open>getStatus\<close>

record SyncStatus =
  localBranch :: string
  remoteBranch :: string
  upToDate :: bool
  hasLocalChanges :: bool
  lastSync :: nat

text \<open>A possibly undefined string inside a template literal.\<close>

fun template :: "string option \<Rightarrow> string" where
  "template None = ''undefined''"
| "template (Some s) = s"

definition getStatus_try :: "'w sys \<Rightarrow> 'w service \<Rightarrow> (thrown + SyncStatus) \<times> 'w service" where
  "getStatus_try sys s =
     (case call_simpleGit sys (localContentPath (config s)) s of
        (Inl e, s0) \<Rightarrow> (Inl e, s0)
      | (Inr _, s0) \<Rightarrow>
     (case call_status sys (localContentPath (config s0)) s0 of
        (Inl e, s1) \<Rightarrow> (Inl e, s1)
      | (Inr status, s1) \<Rightarrow>
          (case call_revparse sys (localContentPath (config s1)) [''--abbrev-ref'', ''HEAD''] s1 of
             (Inl e, s2) \<Rightarrow> (Inl e, s2)
           | (Inr br, s2) \<Rightarrow>
               (Inr \<lparr> localBranch = br,
                      remoteBranch = ''origin/'' @ template (read (branch (config s2))),
                      upToDate = (ahead status = 0 \<and> behind status = 0),
                      hasLocalChanges = (length (files status) > 0),
                      lastSync = date_now sys (world s2) \<rparr>, s2))))"

definition getStatus :: "'w sys \<Rightarrow> 'w service \<Rightarrow> (thrown + SyncStatus) \<times> 'w service" where
  "getStatus sys s =
     (case getStatus_try sys s of
        (Inl e, s') \<Rightarrow>
          (Inl (Error (''Failed to get sync status: '' @ error_message e ''Unknown error'')), s')
      | (Inr r, s') \<Rightarrow> (Inr r, s'))"

section \<open>GitContentService\<close>

text \<open>
  The service object holds \<open>repositoryPath\<close> and the client its constructor built for that
  directory; the methods below are those of a constructed object.
\<close>

record 'w git_service = "'w machine" +
  repositoryPath :: string

datatype js_date = DateParse string | DateAt nat

record CommitInfo =
  commit_hash :: string
  commit_message :: string
  commit_author :: string
  commit_date :: js_date

record FileStatus =
  status_modified :: "string list"
  status_added :: "string list"
  status_deleted :: "string list"
  status_untracked :: "string list"

record GitRepositoryInfo =
  info_branch :: string
  remote :: string
  lastCommit :: CommitInfo
  info_status :: FileStatus

record Verification =
  isValid :: bool
  issues :: "string list"

text \<open>\<^verbatim>\<open>remotes.find(r => r.name === 'origin')?.refs?.fetch || 'unknown'\<close>\<close>

definition origin_remote :: "Remote list \<Rightarrow> string" where
  "origin_remote remotes =
     str_or (case find (\<lambda>r. name r = ''origin'') remotes of
               None \<Rightarrow> None
             | Some r \<Rightarrow> (case refs r of None \<Rightarrow> None | Some rf \<Rightarrow> Some (fetch rf)))
            ''unknown''"

definition repository_info ::
  "nat \<Rightarrow> string \<Rightarrow> Remote list \<Rightarrow> LogResult \<Rightarrow> StatusResult \<Rightarrow> GitRepositoryInfo" where
  "repository_info now br remotes lg status =
     \<lparr> info_branch = br,
       remote = origin_remote remotes,
       lastCommit =
         \<lparr> commit_hash = str_or (map_option hash (latest lg)) [],
           commit_message = str_or (map_option message (latest lg)) [],
           commit_author = str_or (map_option author_name (latest lg)) [],
           commit_date = (case latest lg of
                            None \<Rightarrow> DateAt now
                          | Some c \<Rightarrow> if date c = [] then DateAt now else DateParse (date c)) \<rparr>,
       info_status =
         \<lparr> status_modified = modified status,
           status_added = created status,
           status_deleted = deleted status,
           status_untracked = not_added status \<rparr> \<rparr>"

text \<open>
  The four queries are all issued, in the order of the array, before \<^verbatim>\<open>Promise.all\<close> awaits
  them. When several fail, the promise rejects with whichever failed first; the model takes
  the first in the order of the array.
\<close>

definition getRepositoryInfo ::
  "'w sys \<Rightarrow> 'w git_service \<Rightarrow> (thrown + GitRepositoryInfo) \<times> 'w git_service" where
  "getRepositoryInfo sys s =
     (case call_revparse sys (repositoryPath s) [''--abbrev-ref'', ''HEAD''] s of (r1, s1) \<Rightarrow>
      case call_getRemotes sys (repositoryPath s1) True s1 of (r2, s2) \<Rightarrow>
      case call_log sys (repositoryPath s2) 1 s2 of (r3, s3) \<Rightarrow>
      case call_status sys (repositoryPath s3) s3 of (r4, s4) \<Rightarrow>
        (let failed = (\<lambda>e. Inl (Error (''Failed to get repository info: '' @ error_message e ''Unknown error'')))
         in case r1 of Inl e \<Rightarrow> (failed e, s4) | Inr br \<Rightarrow>
            (case r2 of Inl e \<Rightarrow> (failed e, s4) | Inr remotes \<Rightarrow>
            (case r3 of Inl e \<Rightarrow> (failed e, s4) | Inr lg \<Rightarrow>
            (case r4 of Inl e \<Rightarrow> (failed e, s4) | Inr status \<Rightarrow>
               (Inr (repository_info (date_now sys (world s4)) br remotes lg status), s4))))))"

definition verification_failed :: "thrown \<Rightarrow> string list \<Rightarrow> Verification" where
  "verification_failed e issues0 =
     \<lparr> isValid = False,
       issues = issues0 @ [''Repository verification failed: '' @ error_message e ''Unknown error''] \<rparr>"

definition verifyRepository :: "'w sys \<Rightarrow> 'w git_service \<Rightarrow> Verification \<times> 'w git_service" where
  "verifyRepository sys s =
     (case call_status sys (repositoryPath s) s of
        (Inl e, s1) \<Rightarrow> (verification_failed e [], s1)
      | (Inr _, s1) \<Rightarrow>
          (case call_getRemotes sys (repositoryPath s1) False s1 of
             (Inl e, s2) \<Rightarrow> (verification_failed e [], s2)
           | (Inr remotes, s2) \<Rightarrow>
               (let issues1 = (if length remotes = 0
                               then [''No remote repositories configured''] else [])
                in case call_fetch sys (repositoryPath s2) s2 of
                     (Inl _, s3) \<Rightarrow>
                       (let issues2 = issues1 @ [''Cannot access remote repository'']
                        in (\<lparr> isValid = (length issues2 = 0), issues = issues2 \<rparr>, s3))
                   | (Inr _, s3) \<Rightarrow>
                       (\<lparr> isValid = (length issues1 = 0), issues = issues1 \<rparr>, s3))))"

section \<open>Sample worlds\<close>

text \<open>
  Concrete worlds on which the theorems below are instantiated. The world is a counter
  that every writing operation advances. In \<open>sample_sys\<close> the content directory holds a
  working copy with two modified files and an empty remote list, there is no \<^verbatim>\<open>.git\<close>
  pointer file and \<^verbatim>\<open>fetch\<close> throws.
\<close>

definition sample_status :: "string list \<Rightarrow> StatusResult" where
  "sample_status ps =
     \<lparr> files = map (\<lambda>p. \<lparr> path = p, index = '' '', working_dir = ''M'' \<rparr>) ps,
       modified = ps, created = [], deleted = [], not_added = [], ahead = 0, behind = 0 \<rparr>"

definition sample_sys :: "nat sys" where
  "sample_sys =
     \<lparr> fs_ensureDir = (\<lambda>d w. (Inr (), w)),
       fs_readFile = (\<lambda>f w. (Inl (Error ''ENOENT: no such file or directory''), w)),
       fs_readdir = (\<lambda>d w. (Inr [''a.json'', ''b.json''], w)),
       path_dirname = (\<lambda>p. ''/work''),
       date_now = (\<lambda>w. w),
       toISOString = (\<lambda>t. ''2024-01-01T00:00:00.000Z''),
       simpleGit = (\<lambda>d w. (Inr (), w)),
       git_status = (\<lambda>d w. (Inr (sample_status [''a.json'', ''b.json'']), w)),
       git_revparse = (\<lambda>d args w. (Inr ''main'', w)),
       git_getRemotes = (\<lambda>d v w. (Inr [], w)),
       git_log = (\<lambda>d n w. (Inr \<lparr> latest = None \<rparr>, w)),
       git_fetch = (\<lambda>d w. (Inl (Error ''Could not resolve host''), w)),
       git_pull = (\<lambda>d r b w. (Inr \<lparr> pull_files = [''README.md''] \<rparr>, Suc w)),
       git_add = (\<lambda>d f w. (Inr (), Suc w)),
       git_commit = (\<lambda>d m w. (Inr (), Suc w)),
       git_push = (\<lambda>d r b w. (Inr (), Suc w)),
       git_clone = (\<lambda>u d w. (Inr (), Suc w)),
       git_submoduleInit = (\<lambda>d w. (Inr (), Suc w)),
       git_submoduleUpdate = (\<lambda>d w. (Inr (), Suc w)) \<rparr>"

text \<open>The same, with nothing to commit.\<close>

definition clean_sys :: "nat sys" where
  "clean_sys = sample_sys\<lparr> git_status := (\<lambda>d w. (Inr (sample_status []), w)) \<rparr>"

text \<open>The same, with a remote that rejects the push.\<close>

definition rejected_push_sys :: "nat sys" where
  "rejected_push_sys =
     sample_sys\<lparr> git_push := (\<lambda>d r b w. (Inl (Error ''failed to push some refs''), w)) \<rparr>"

text \<open>The same as \<open>sample_sys\<close>, with a \<^verbatim>\<open>fetch\<close> that returns normally.\<close>

definition quiet_fetch_sys :: "nat sys" where
  "quiet_fetch_sys = sample_sys\<lparr> git_fetch := (\<lambda>d w. (Inr (), w)) \<rparr>"

text \<open>The content directory holds files but no working copy: the status query fails.\<close>

definition not_a_repository_sys :: "nat sys" where
  "not_a_repository_sys =
     sample_sys\<lparr> git_status := (\<lambda>d w. (Inl (Error ''fatal: not a git repository''), w)) \<rparr>"

text \<open>The same, with a \<^verbatim>\<open>.git\<close> pointer file as a submodule has it.\<close>

definition submodule_pointer_sys :: "nat sys" where
  "submodule_pointer_sys =
     not_a_repository_sys\<lparr> fs_readFile := (\<lambda>f w. (Inr ''gitdir: ../.git/modules/x'', w)) \<rparr>"

definition boot :: "nat machine" where
  "boot = \<lparr> world = 0, calls = [] \<rparr>"

definition minimal_config :: ContentSyncConfig where
  "minimal_config =
     \<lparr> ceresRepositoryUrl = ''https://example/repo.git'', localContentPath = ''/work/out'',
       branch = Absent, autoCommit = Absent, includePaths = Absent, excludePaths = Absent,
       verbose = Absent \<rparr>"

definition sample_service :: "nat service" where
  "sample_service = new_service minimal_config boot"

definition gated_service :: "nat service" where
  "gated_service = new_service (minimal_config\<lparr> autoCommit := Present (Some False) \<rparr>) boot"

definition undefined_paths_service :: "nat service" where
  "undefined_paths_service = new_service (minimal_config\<lparr> includePaths := Present None \<rparr>) boot"

definition sample_git_service :: "nat git_service" where
  "sample_git_service = \<lparr> world = 0, calls = [], repositoryPath = ''/work/out'' \<rparr>"

section \<open>Basic facts\<close>

lemmas call_defs = call_ensureDir_def call_readFile_def call_readdir_def call_simpleGit_def
  call_status_def
  call_revparse_def call_getRemotes_def call_log_def call_fetch_def call_pull_def call_add_def
  call_commit_def call_push_def call_clone_def call_submoduleInit_def call_submoduleUpdate_def

lemma invoke_eq:
  "f (world s) = (r, w') \<Longrightarrow> invoke c f s = (r, s\<lparr>world := w', calls := calls s @ [c]\<rparr>)"
  by (simp add: invoke_def)

lemma invoke_config: "config (snd (invoke c f s)) = config s"
  by (simp add: invoke_def split_beta)

lemma call_config:
  "config (snd (call_ensureDir sys d s)) = config s"
  "config (snd (call_readFile sys d s)) = config s"
  "config (snd (call_readdir sys d s)) = config s"
  "config (snd (call_simpleGit sys d s)) = config s"
  "config (snd (call_status sys d s)) = config s"
  "config (snd (call_revparse sys d args s)) = config s"
  "config (snd (call_pull sys d r b s)) = config s"
  "config (snd (call_add sys d f s)) = config s"
  "config (snd (call_commit sys d f s)) = config s"
  "config (snd (call_push sys d r b s)) = config s"
  "config (snd (call_clone sys u d s)) = config s"
  "config (snd (call_submoduleInit sys d s)) = config s"
  "config (snd (call_submoduleUpdate sys d s)) = config s"
  by (simp_all add: call_defs invoke_config)

text \<open>No operation of the service assigns to \<open>config\<close>.\<close>

lemma isGitSubmodule_config: "config (snd (isGitSubmodule sys p s)) = config s"
  by (simp add: isGitSubmodule_def split_beta call_config split: sum.splits)

lemma initializeSubmodule_config: "config (snd (initializeSubmodule sys s)) = config s"
  by (simp add: initializeSubmodule_def Let_def split_beta call_config split: sum.splits)

lemma initializeStandaloneClone_config:
  "config (snd (initializeStandaloneClone sys s)) = config s"
  by (simp add: initializeStandaloneClone_def split_beta call_config split: sum.splits)

lemma initialize_try_config: "config (snd (initialize_try sys s)) = config s"
  by (simp add: initialize_try_def split_beta call_config isGitSubmodule_config
      initializeSubmodule_config initializeStandaloneClone_config split: sum.splits)

lemma initialize_config: "config (snd (initialize sys s)) = config s"
  by (simp add: initialize_def split_beta initialize_try_config split: sum.splits)

lemma sync_try_config: "config (snd (snd (sync_try sys result s))) = config s"
  by (simp add: sync_try_def applyPathFilters_def Let_def split_beta call_config
      split: sum.splits)

lemma sync_config: "config (snd (sync sys s)) = config s"
  by (simp add: sync_def Let_def split_beta sync_try_config split: sum.splits)

lemma push_try_config: "config (snd (snd (push_try sys commitMessage result s))) = config s"
  by (simp add: push_try_def Let_def split_beta call_config split: sum.splits)

lemma push_config: "config (snd (push sys commitMessage s)) = config s"
  by (simp add: push_def Let_def split_beta push_try_config split: sum.splits)

lemma getStatus_try_config: "config (snd (getStatus_try sys s)) = config s"
  by (simp add: getStatus_try_def split_beta call_config split: sum.splits)

lemma getStatus_config: "config (snd (getStatus sys s)) = config s"
  by (simp add: getStatus_def split_beta getStatus_try_config split: sum.splits)

text \<open>
  Trimming cannot remove a leading \<^verbatim>\<open>gitdir:\<close>: neither its first nor its last character is
  white space.
\<close>

lemma trim_keeps_prefix:
  assumes "startsWith s ''gitdir:''"
  shows "startsWith (trim s) ''gitdir:''"
proof -
  from assms obtain rest where s: "s = ''gitdir:'' @ rest"
    by (metis append_take_drop_id startsWith_def)
  have g: "\<not> is_white_space (CHR ''g'')" and c: "\<not> is_white_space (CHR '':'')"
    by (simp_all add: is_white_space_def)
  have front: "dropWhile is_white_space s = s"
    using g by (simp add: s)
  have tail_end: "dropWhile is_white_space (rev s)
                = dropWhile is_white_space (rev rest) @ rev ''gitdir:''"
    using c by (simp add: s dropWhile_append)
  show ?thesis
    by (simp add: trim_def front tail_end startsWith_def)
qed

text \<open>
  The path-filter condition throws exactly when the list it has to read is \<open>undefined\<close>:
  \<open>includePaths\<close>, or \<open>excludePaths\<close> once \<open>includePaths\<close> is empty.
\<close>

lemma path_filters_requested_throws:
  "(\<exists>e. path_filters_requested c = Inl e) \<longleftrightarrow>
     read (includePaths c) = None \<or>
     (read (includePaths c) = Some [] \<and> read (excludePaths c) = None)"
  by (cases "read (includePaths c)"; cases "read (excludePaths c)")
     (auto simp: path_filters_requested_def)

lemma find_absent:
  "\<forall>r\<in>set rs. name r \<noteq> ''origin'' \<Longrightarrow> find (\<lambda>r. name r = ''origin'') rs = None"
  by (simp add: find_None_iff)

lemmas sample_defs = sample_sys_def clean_sys_def not_a_repository_sys_def
  submodule_pointer_sys_def boot_def minimal_config_def sample_service_def gated_service_def
  undefined_paths_service_def sample_git_service_def sample_status_def new_service_def
  merge_defaults_def

section \<open>The result invariant\<close>

text \<open>
  Claim C1. Every \<open>SyncResult\<close> returned by \<open>sync\<close> or \<open>push\<close> has \<open>success\<close> true if and
  only if its \<open>errors\<close> list is empty, whatever the configuration, the commit message and
  the behaviour of the outside world.
\<close>

theorem sync_push_result_invariant:
  "(success (fst (sync sys s)) \<longleftrightarrow> errors (fst (sync sys s)) = []) \<and>
   (success (fst (push sys commitMessage s)) \<longleftrightarrow> errors (fst (push sys commitMessage s)) = [])"
proof
  show "success (fst (sync sys s)) \<longleftrightarrow> errors (fst (sync sys s)) = []"
    by (simp add: sync_def sync_try_def applyPathFilters_def Let_def
        split: prod.splits sum.splits if_splits)
  show "success (fst (push sys commitMessage s)) \<longleftrightarrow> errors (fst (push sys commitMessage s)) = []"
    by (simp add: push_def push_try_def Let_def split: prod.splits sum.splits if_splits)
qed

section \<open>The configuration\<close>

text \<open>
  Claim C9. Given only the two required fields, the constructor stores
  \<open>branch = "main"\<close>, \<open>autoCommit = true\<close>, \<open>includePaths = []\<close>,
  \<open>excludePaths = [".git", "node_modules", ".DS_Store"]\<close> and \<open>verbose = false\<close> beside the
  two fields as given; and \<open>initialize\<close>, \<open>sync\<close>, \<open>push\<close> and \<open>getStatus\<close> leave the stored
  configuration as the constructor made it.
\<close>

theorem constructor_defaults:
  "config (new_service \<lparr> ceresRepositoryUrl = url, localContentPath = dir, branch = Absent,
       autoCommit = Absent, includePaths = Absent, excludePaths = Absent, verbose = Absent \<rparr> m)
     = \<lparr> ceresRepositoryUrl = url, localContentPath = dir, branch = Present (Some ''main''),
         autoCommit = Present (Some True), includePaths = Present (Some []),
         excludePaths = Present (Some [''.git'', ''node_modules'', ''.DS_Store'']),
         verbose = Present (Some False) \<rparr>
   \<and> config (snd (initialize sys s)) = config s
   \<and> config (snd (sync sys s)) = config s
   \<and> config (snd (push sys commitMessage s)) = config s
   \<and> config (snd (getStatus sys s)) = config s"
  by (simp add: new_service_def merge_defaults_def initialize_config sync_config push_config
      getStatus_config)

text \<open>
  Claim C10. The defaults fill only the keys the given object lacks: an optional key that
  is present is stored with the value it holds, so a key holding \<open>undefined\<close> reads
  \<open>undefined\<close> in the stored configuration, not the default.
\<close>

theorem explicit_undefined_overrides_default:
  "(\<forall>v. branch c = Present v \<longrightarrow> read (branch (config (new_service c m))) = v) \<and>
   (\<forall>v. autoCommit c = Present v \<longrightarrow> read (autoCommit (config (new_service c m))) = v) \<and>
   (\<forall>v. includePaths c = Present v \<longrightarrow> read (includePaths (config (new_service c m))) = v) \<and>
   (\<forall>v. excludePaths c = Present v \<longrightarrow> read (excludePaths (config (new_service c m))) = v) \<and>
   (\<forall>v. verbose c = Present v \<longrightarrow> read (verbose (config (new_service c m))) = v)"
  by (simp add: new_service_def merge_defaults_def)

theorem explicit_undefined_overrides_default_witness:
  "branch (minimal_config\<lparr> branch := Present None \<rparr>) = Present None \<and>
   read (branch (config (new_service (minimal_config\<lparr> branch := Present None \<rparr>) boot))) = None \<and>
   includePaths (minimal_config\<lparr> includePaths := Present None \<rparr>) = Present None \<and>
   read (includePaths (config undefined_paths_service)) = None"
  using explicit_undefined_overrides_default [of "minimal_config\<lparr> branch := Present None \<rparr>" boot]
    explicit_undefined_overrides_default [of "minimal_config\<lparr> includePaths := Present None \<rparr>" boot]
  by (simp add: undefined_paths_service_def)

section \<open>sync\<close>

text \<open>
  What \<open>sync\<close> returns and which calls it makes, for every outcome of the client factory,
  of the pull and of the path-filter condition.
\<close>

lemma sync_outcome:
  assumes "simpleGit sys (localContentPath (config s)) (world s) = (r0, w0)"
    and "git_pull sys (localContentPath (config s)) ''origin'' (read (branch (config s))) w0
           = (r, w1)"
  shows "sync sys s =
     (case r0 of
        Inl e \<Rightarrow>
          (\<lparr> success = False, changes = [],
             errors = [error_message e ''Unknown error during sync''],
             timestamp = date_now sys (world s) \<rparr>,
           s\<lparr>world := w0, calls := calls s @ [SimpleGit (localContentPath (config s))]\<rparr>)
      | Inr _ \<Rightarrow>
          ((case r of
              Inl e \<Rightarrow>
                \<lparr> success = False, changes = [],
                  errors = [error_message e ''Unknown error during sync''],
                  timestamp = date_now sys (world s) \<rparr>
            | Inr pullResult \<Rightarrow>
                (case path_filters_requested (config s) of
                   Inl e \<Rightarrow>
                     \<lparr> success = False, changes = pull_files pullResult,
                       errors = [error_message e ''Unknown error during sync''],
                       timestamp = date_now sys (world s) \<rparr>
                 | Inr _ \<Rightarrow>
                     \<lparr> success = True, changes = pull_files pullResult, errors = [],
                       timestamp = date_now sys (world s) \<rparr>)),
           s\<lparr>world := w1,
             calls := calls s @
               [SimpleGit (localContentPath (config s)),
                Pull (localContentPath (config s)) ''origin'' (read (branch (config s)))]\<rparr>))"
  using assms
  by (simp add: sync_def sync_try_def call_simpleGit_def call_pull_def invoke_eq
      applyPathFilters_def Let_def split: sum.splits)

text \<open>
  Where the stored \<open>includePaths\<close> and \<open>excludePaths\<close> are lists, as the constructor's
  defaults are meant to ensure, the pull alone decides: a pull that throws gives the
  failure result with its message and no changes, a pull that succeeds gives
  \<open>success = true\<close>, its file list as \<open>changes\<close> and no error.
\<close>

lemma sync_when_paths_defined:
  assumes "read (includePaths (config s)) = Some included"
    and "read (excludePaths (config s)) = Some excluded"
    and "simpleGit sys (localContentPath (config s)) (world s) = (Inr (), w0)"
    and "git_pull sys (localContentPath (config s)) ''origin'' (read (branch (config s))) w0
           = (r, w1)"
  shows "fst (sync sys s) =
     (case r of
        Inl e \<Rightarrow>
          \<lparr> success = False, changes = [],
            errors = [error_message e ''Unknown error during sync''],
            timestamp = date_now sys (world s) \<rparr>
      | Inr pullResult \<Rightarrow>
          \<lparr> success = True, changes = pull_files pullResult, errors = [],
            timestamp = date_now sys (world s) \<rparr>)"
  using assms
  by (cases r) (simp_all add: sync_outcome [OF assms(3,4)] path_filters_requested_def)

lemma sync_sample:
  "sync sample_sys sample_service =
     (\<lparr> success = True, changes = [''README.md''], errors = [], timestamp = 0 \<rparr>,
      sample_service\<lparr>world := 1,
        calls := [SimpleGit ''/work/out'', Pull ''/work/out'' ''origin'' (Some ''main'')]\<rparr>)"
  using sync_outcome [of sample_sys sample_service "Inr ()" 0
      "Inr \<lparr> pull_files = [''README.md''] \<rparr>" 1]
  by (simp add: sample_defs path_filters_requested_def)

text \<open>
  Claim C2. \<open>sync\<close> never raises: a step that fails gives \<open>success = false\<close> with the
  failure's message, and a pull that succeeds gives \<open>success = true\<close> with the pull's file
  list as \<open>changes\<close> and no error. The code breaks this at a configuration given with
  \<^verbatim>\<open>includePaths: undefined\<close>: the constructor's spread stores the \<open>undefined\<close> in place of
  the default, the condition \<^verbatim>\<open>this.config.includePaths.length > 0\<close> then throws after
  the pull has succeeded, and \<open>sync\<close> returns \<open>success = false\<close> with the TypeError's
  message, the pulled file still in \<open>changes\<close>.
\<close>

theorem sync_undefined_paths_failing_input:
  "fst (git_pull sample_sys ''/work/out'' ''origin'' (Some ''main'') 0)
     = Inr \<lparr> pull_files = [''README.md''] \<rparr> \<and>
   sync sample_sys undefined_paths_service =
     (\<lparr> success = False, changes = [''README.md''],
        errors = [''Cannot read properties of undefined (reading 'length')''], timestamp = 0 \<rparr>,
      undefined_paths_service\<lparr>world := 1,
        calls := [SimpleGit ''/work/out'', Pull ''/work/out'' ''origin'' (Some ''main'')]\<rparr>)"
  by (simp add: sample_defs sync_def sync_try_def call_simpleGit_def call_pull_def invoke_def
      path_filters_requested_def undefined_length_message_def)

section \<open>push\<close>

text \<open>
  Claim C3. With \<open>autoCommit\<close> false, \<open>push\<close> reports the auto-commit error as its only
  error, with \<open>success = false\<close> and no changes, and leaves the state as it found it: no
  call is made (no client is built; no status query, stage, commit or push) and the world
  is untouched.
\<close>

theorem push_gate:
  assumes "read (autoCommit (config s)) = Some False"
  shows "push sys commitMessage s =
           (\<lparr> success = False, changes = [],
              errors = [''Push operation requires autoCommit to be enabled''],
              timestamp = date_now sys (world s) \<rparr>, s)"
  using assms by (simp add: push_def push_try_def)

theorem push_gate_witness:
  "push sample_sys (Some ''fix tokens'') gated_service =
     (\<lparr> success = False, changes = [],
        errors = [''Push operation requires autoCommit to be enabled''], timestamp = 0 \<rparr>,
      gated_service)"
  using push_gate [of gated_service sample_sys "Some ''fix tokens''"]
  by (simp add: sample_defs)

text \<open>
  Claim C4, as stated, fails: with files to push, \<open>push\<close> does not always return their
  paths. Here staging and committing succeed and the remote rejects the push; \<open>push\<close>
  returns \<open>success = false\<close> with no changes and the rejection as its error.
\<close>

theorem push_rejected_counterexample:
  "read (autoCommit (config sample_service)) = Some True \<and>
   map path (files (sample_status [''a.json'', ''b.json''])) = [''a.json'', ''b.json''] \<and>
   push rejected_push_sys (Some ''fix tokens'') sample_service =
     (\<lparr> success = False, changes = [],
        errors = [''failed to push some refs''], timestamp = 0 \<rparr>,
      sample_service\<lparr>world := 2,
        calls := [SimpleGit ''/work/out'', Status ''/work/out'', Add ''/work/out'' ''.'',
                  Commit ''/work/out'' ''fix tokens'',
                  Push ''/work/out'' ''origin'' (Some ''main'')]\<rparr>)"
  by (simp add: sample_defs rejected_push_sys_def push_def push_try_def call_simpleGit_def
      call_status_def call_add_def call_commit_def call_push_def invoke_def Let_def
      numeral_2_eq_2)

text \<open>
  Claim C4, amended. With \<open>autoCommit\<close> true, \<open>push\<close> builds a client and queries the
  status. If either throws, it returns the failure result (\<open>success = false\<close>, no changes,
  the message of what was thrown as the only error). If the status lists no file, it
  returns \<open>success = true\<close> with no changes and no error, and makes no further call.
  Otherwise it calls \<^verbatim>\<open>add('.')\<close>, then the commit with \<^verbatim>\<open>commitMessage || default\<close> (the
  default is \<open>Content sync update - \<close> followed by the ISO timestamp of that moment), then
  the push to \<open>origin\<close> on the configured branch, each only if the call before it
  succeeded: when all three succeed it returns \<open>success = true\<close> with \<open>changes\<close> the paths
  of the files of the status query, in its order; when one throws, the calls after it are
  not made and it returns the failure result.
\<close>

theorem push_outcome:
  assumes "read (autoCommit (config s)) = Some True"
    and "simpleGit sys (localContentPath (config s)) (world s) = (r0, w0)"
    and "git_status sys (localContentPath (config s)) w0 = (r1, w1)"
    and "git_add sys (localContentPath (config s)) ''.'' w1 = (r2, w2)"
    and "msg = str_or commitMessage
           (''Content sync update - '' @ toISOString sys (date_now sys w2))"
    and "git_commit sys (localContentPath (config s)) msg w2 = (r3, w3)"
    and "git_push sys (localContentPath (config s)) ''origin'' (read (branch (config s))) w3
           = (r4, w4)"
  shows "push sys commitMessage s =
     (let dir = localContentPath (config s);
          failed = (\<lambda>e w cs.
            (\<lparr> success = False, changes = [],
               errors = [error_message e ''Unknown error during push''],
               timestamp = date_now sys (world s) \<rparr>,
             s\<lparr>world := w, calls := calls s @ cs\<rparr>));
          succeeded = (\<lambda>ps w cs.
            (\<lparr> success = True, changes = ps, errors = [],
               timestamp = date_now sys (world s) \<rparr>,
             s\<lparr>world := w, calls := calls s @ cs\<rparr>))
      in case r0 of
           Inl e \<Rightarrow> failed e w0 [SimpleGit dir]
         | Inr _ \<Rightarrow>
        (case r1 of
           Inl e \<Rightarrow> failed e w1 [SimpleGit dir, Status dir]
         | Inr status \<Rightarrow>
             if files status = [] then succeeded [] w1 [SimpleGit dir, Status dir]
             else
        (case r2 of
           Inl e \<Rightarrow> failed e w2 [SimpleGit dir, Status dir, Add dir ''.'']
         | Inr _ \<Rightarrow>
        (case r3 of
           Inl e \<Rightarrow> failed e w3 [SimpleGit dir, Status dir, Add dir ''.'', Commit dir msg]
         | Inr _ \<Rightarrow>
        (case r4 of
           Inl e \<Rightarrow>
             failed e w4 [SimpleGit dir, Status dir, Add dir ''.'', Commit dir msg,
                          Push dir ''origin'' (read (branch (config s)))]
         | Inr _ \<Rightarrow>
             succeeded (map path (files status)) w4
               [SimpleGit dir, Status dir, Add dir ''.'', Commit dir msg,
                Push dir ''origin'' (read (branch (config s)))])))))"
  using assms
  by (cases r0; cases r1; cases r2; cases r3; cases r4)
     (simp_all add: push_def push_try_def call_simpleGit_def call_status_def call_add_def
        call_commit_def call_push_def invoke_eq Let_def)

theorem push_outcome_witness:
  "push clean_sys None sample_service =
     (\<lparr> success = True, changes = [], errors = [], timestamp = 0 \<rparr>,
      sample_service\<lparr>calls := [SimpleGit ''/work/out'', Status ''/work/out'']\<rparr>) \<and>
   push sample_sys (Some ''fix tokens'') sample_service =
     (\<lparr> success = True, changes = [''a.json'', ''b.json''], errors = [], timestamp = 0 \<rparr>,
      sample_service\<lparr>world := 3,
        calls := [SimpleGit ''/work/out'', Status ''/work/out'', Add ''/work/out'' ''.'',
                  Commit ''/work/out'' ''fix tokens'',
                  Push ''/work/out'' ''origin'' (Some ''main'')]\<rparr>) \<and>
   push sample_sys None sample_service =
     (\<lparr> success = True, changes = [''a.json'', ''b.json''], errors = [], timestamp = 0 \<rparr>,
      sample_service\<lparr>world := 3,
        calls := [SimpleGit ''/work/out'', Status ''/work/out'', Add ''/work/out'' ''.'',
                  Commit ''/work/out'' ''Content sync update - 2024-01-01T00:00:00.000Z'',
                  Push ''/work/out'' ''origin'' (Some ''main'')]\<rparr>)"
  using push_outcome [of sample_service clean_sys "Inr ()" 0 "Inr (sample_status [])" 0
      "Inr ()" 1 "''Content sync update - 2024-01-01T00:00:00.000Z''" None "Inr ()" 2 "Inr ()" 3]
    push_outcome [of sample_service sample_sys "Inr ()" 0
      "Inr (sample_status [''a.json'', ''b.json''])" 0 "Inr ()" 1 "''fix tokens''"
      "Some ''fix tokens''" "Inr ()" 2 "Inr ()" 3]
    push_outcome [of sample_service sample_sys "Inr ()" 0
      "Inr (sample_status [''a.json'', ''b.json''])" 0 "Inr ()" 1
      "''Content sync update - 2024-01-01T00:00:00.000Z''" None "Inr ()" 2 "Inr ()" 3]
  by (simp add: sample_defs Let_def)

section \<open>initialize\<close>

text \<open>
  Claim C5, as stated, fails: a non-empty directory whose status query fails is not
  always refused. When its \<^verbatim>\<open>.git\<close> entry is a pointer file beginning with \<^verbatim>\<open>gitdir:\<close>,
  \<open>initialize\<close> takes the submodule branch, never queries the status, and here returns
  normally after \<^verbatim>\<open>submodule init\<close> and \<^verbatim>\<open>submodule update\<close> in the parent directory.
\<close>

theorem initialize_pointer_file_counterexample:
  "fst (fs_readdir submodule_pointer_sys ''/work/out'' 0) = Inr [''a.json'', ''b.json''] \<and>
   fst (git_status submodule_pointer_sys ''/work/out'' 0)
     = Inl (Error ''fatal: not a git repository'') \<and>
   initialize submodule_pointer_sys sample_service =
     (Inr (),
      sample_service\<lparr>world := 2,
        calls := [EnsureDir ''/work/out'', ReadFile ''/work/out/.git'', SimpleGit ''/work'',
                  SubmoduleInit ''/work'', SubmoduleUpdate ''/work'']\<rparr>)"
  by (simp add: sample_defs initialize_def initialize_try_def isGitSubmodule_def
      initializeSubmodule_def call_ensureDir_def call_readFile_def call_simpleGit_def
      call_submoduleInit_def call_submoduleUpdate_def invoke_def trim_def startsWith_def
      is_white_space_def Let_def numeral_2_eq_2)

text \<open>
  Claim C5, amended. For a content directory that exists, is not detected as a submodule
  (its \<^verbatim>\<open>.git\<close> entry cannot be read, or does not begin with \<^verbatim>\<open>gitdir:\<close> once trimmed), lists
  at least one entry and fails the status query, \<open>initialize\<close> throws
  \<open>Failed to initialize content sync service: Local content directory exists but is not
  a git repository\<close>, and the calls it has made are the directory check, the read of
  \<^verbatim>\<open>.git\<close>, the listing, the building of a client and the status query: no clone, nothing
  that overwrites or deletes.
\<close>

theorem initialize_not_a_repository:
  assumes "fs_ensureDir sys (localContentPath (config s)) (world s) = (Inr (), w1)"
    and "fs_readFile sys (localContentPath (config s) @ ''/.git'') w1 = (r, w2)"
    and "case r of Inl e \<Rightarrow> True | Inr gitDir \<Rightarrow> \<not> startsWith (trim gitDir) ''gitdir:''"
    and "fs_readdir sys (localContentPath (config s)) w2 = (Inr entries, w3)"
    and "entries \<noteq> []"
    and "simpleGit sys (localContentPath (config s)) w3 = (Inr (), w4)"
    and "git_status sys (localContentPath (config s)) w4 = (Inl e, w5)"
  shows "initialize sys s =
           (Inl (Error (''Failed to initialize content sync service: '' @
                        ''Local content directory exists but is not a git repository'')),
            s\<lparr>world := w5,
              calls := calls s @
                [EnsureDir (localContentPath (config s)),
                 ReadFile (localContentPath (config s) @ ''/.git''),
                 Readdir (localContentPath (config s)),
                 SimpleGit (localContentPath (config s)),
                 Status (localContentPath (config s))]\<rparr>)"
  using assms
  by (cases r)
     (simp_all add: initialize_def initialize_try_def isGitSubmodule_def
        initializeStandaloneClone_def call_ensureDir_def call_readFile_def call_readdir_def
        call_simpleGit_def call_status_def invoke_eq)

theorem initialize_not_a_repository_witness:
  "initialize not_a_repository_sys sample_service =
     (Inl (Error ''Failed to initialize content sync service: Local content directory exists but is not a git repository''),
      sample_service\<lparr>calls := [EnsureDir ''/work/out'', ReadFile ''/work/out/.git'',
                                Readdir ''/work/out'', SimpleGit ''/work/out'',
                                Status ''/work/out'']\<rparr>)"
  using initialize_not_a_repository [of not_a_repository_sys sample_service 0
      "Inl (Error ''ENOENT: no such file or directory'')" 0 "[''a.json'', ''b.json'']" 0 0
      "Error ''fatal: not a git repository''" 0]
  by (simp add: sample_defs)

text \<open>
  Claim C6. Once the content directory exists: if \<^verbatim>\<open>.git\<close> reads as a file whose content
  begins with \<^verbatim>\<open>gitdir:\<close>, \<open>initialize\<close> goes on as \<open>initializeSubmodule\<close> does (a client for
  the parent directory, \<^verbatim>\<open>submodule init\<close> there, then \<^verbatim>\<open>submodule update\<close> there, each
  only if the step before it succeeded) and makes no other call, so no clone; if reading
  \<^verbatim>\<open>.git\<close> fails (the file is absent or unreadable), the failure is dropped and
  \<open>initialize\<close> goes on as for a standalone clone.
\<close>

theorem initialize_submodule_detection:
  assumes "fs_ensureDir sys (localContentPath (config s)) (world s) = (Inr (), w1)"
    and "fs_readFile sys (localContentPath (config s) @ ''/.git'') w1 = (r, w2)"
    and "simpleGit sys (path_dirname sys (localContentPath (config s))) w2 = (rc, w3)"
    and "git_submoduleInit sys (path_dirname sys (localContentPath (config s))) w3 = (ri, w4)"
  shows "(\<forall>gitDir. r = Inr gitDir \<and> startsWith gitDir ''gitdir:'' \<longrightarrow>
            calls (snd (initialize sys s)) =
              calls s @
                [EnsureDir (localContentPath (config s)),
                 ReadFile (localContentPath (config s) @ ''/.git''),
                 SimpleGit (path_dirname sys (localContentPath (config s)))] @
                (case rc of
                   Inl _ \<Rightarrow> []
                 | Inr _ \<Rightarrow>
                     SubmoduleInit (path_dirname sys (localContentPath (config s))) #
                     (case ri of
                        Inl _ \<Rightarrow> []
                      | Inr _ \<Rightarrow>
                          [SubmoduleUpdate (path_dirname sys (localContentPath (config s)))]))) \<and>
         (\<forall>e. r = Inl e \<longrightarrow>
            initialize_try sys s =
              initializeStandaloneClone sys
                (s\<lparr>world := w2,
                   calls := calls s @
                     [EnsureDir (localContentPath (config s)),
                      ReadFile (localContentPath (config s) @ ''/.git'')]\<rparr>))"
proof (intro conjI allI impI)
  fix gitDir
  assume "r = Inr gitDir \<and> startsWith gitDir ''gitdir:''"
  then have r: "r = Inr gitDir" and sub: "startsWith (trim gitDir) ''gitdir:''"
    by (simp_all add: trim_keeps_prefix)
  show "calls (snd (initialize sys s)) =
          calls s @
            [EnsureDir (localContentPath (config s)),
             ReadFile (localContentPath (config s) @ ''/.git''),
             SimpleGit (path_dirname sys (localContentPath (config s)))] @
            (case rc of
               Inl _ \<Rightarrow> []
             | Inr _ \<Rightarrow>
                 SubmoduleInit (path_dirname sys (localContentPath (config s))) #
                 (case ri of
                    Inl _ \<Rightarrow> []
                  | Inr _ \<Rightarrow>
                      [SubmoduleUpdate (path_dirname sys (localContentPath (config s)))]))"
    using assms r sub
    by (cases rc; cases ri)
       (simp_all add: initialize_def initialize_try_def isGitSubmodule_def
          initializeSubmodule_def call_simpleGit_def call_submoduleInit_def
          call_submoduleUpdate_def call_ensureDir_def call_readFile_def invoke_eq
          invoke_def [of "SubmoduleUpdate _"] Let_def split_beta split: sum.splits)
next
  fix e
  assume "r = Inl e"
  then show "initialize_try sys s =
      initializeStandaloneClone sys
        (s\<lparr>world := w2,
           calls := calls s @
             [EnsureDir (localContentPath (config s)),
              ReadFile (localContentPath (config s) @ ''/.git'')]\<rparr>)"
    using assms
    by (simp add: initialize_try_def isGitSubmodule_def call_ensureDir_def call_readFile_def
        invoke_eq)
qed

theorem initialize_submodule_detection_witness:
  "startsWith ''gitdir: ../.git/modules/x'' ''gitdir:'' \<and>
   calls (snd (initialize submodule_pointer_sys sample_service)) =
     [EnsureDir ''/work/out'', ReadFile ''/work/out/.git'', SimpleGit ''/work'',
      SubmoduleInit ''/work'', SubmoduleUpdate ''/work''] \<and>
   initialize_try sample_sys sample_service =
     initializeStandaloneClone sample_sys
       (sample_service\<lparr>calls := [EnsureDir ''/work/out'', ReadFile ''/work/out/.git'']\<rparr>)"
  using initialize_submodule_detection [of submodule_pointer_sys sample_service 0
      "Inr ''gitdir: ../.git/modules/x''" 0 "Inr ()" 0 "Inr ()" 1]
    initialize_submodule_detection [of sample_sys sample_service 0
      "Inl (Error ''ENOENT: no such file or directory'')" 0 "Inr ()" 0 "Inr ()" 1]
  by (simp add: sample_defs startsWith_def)

section \<open>Inspection\<close>

text \<open>
  Claim C7, as stated, fails: a failed sub-check can abort the ones after it. When the
  status query throws, \<open>verifyRepository\<close> returns at once with the single issue made
  from that failure; the remote list is not read and the fetch is not attempted, so the
  missing remote and the unreachable network of this world are not reported.
\<close>

theorem verifyRepository_abort_counterexample:
  "fst (git_getRemotes not_a_repository_sys ''/work/out'' False 0) = Inr [] \<and>
   fst (git_fetch not_a_repository_sys ''/work/out'' 0) = Inl (Error ''Could not resolve host'') \<and>
   verifyRepository not_a_repository_sys sample_git_service =
     (\<lparr> isValid = False,
        issues = [''Repository verification failed: fatal: not a git repository''] \<rparr>,
      sample_git_service\<lparr>calls := [Status ''/work/out'']\<rparr>) \<and>
   ''Cannot access remote repository''
     \<notin> set (issues (fst (verifyRepository not_a_repository_sys sample_git_service)))"
  by (simp add: sample_defs verifyRepository_def verification_failed_def call_status_def
      invoke_def)

text \<open>
  Claim C7, amended. \<open>verifyRepository\<close> never raises and \<open>isValid\<close> always equals
  "\<open>issues\<close> is empty". If the status query throws, or the remote-list query throws after
  it, the result is invalid with the single issue \<open>Repository verification failed: \<close>
  followed by the message of what was thrown, and the remaining sub-checks are not run.
  Otherwise the fetch is attempted and the issues are \<open>No remote repositories configured\<close>
  exactly when the remote list is empty, followed by \<open>Cannot access remote repository\<close>
  exactly when the fetch throws. So with an empty remote list the issues are these two
  when the fetch throws, and the first alone when the fetch returns normally.
\<close>

theorem verifyRepository_outcome:
  assumes "git_status sys (repositoryPath s) (world s) = (r1, w1)"
    and "git_getRemotes sys (repositoryPath s) False w1 = (r2, w2)"
    and "git_fetch sys (repositoryPath s) w2 = (r3, w3)"
  shows "isValid (fst (verifyRepository sys s)) = (issues (fst (verifyRepository sys s)) = []) \<and>
         (\<forall>e. r1 = Inl e \<longrightarrow>
            verifyRepository sys s =
              (\<lparr> isValid = False,
                 issues = [''Repository verification failed: '' @ error_message e ''Unknown error''] \<rparr>,
               s\<lparr>world := w1, calls := calls s @ [Status (repositoryPath s)]\<rparr>)) \<and>
         (\<forall>st e. r1 = Inr st \<and> r2 = Inl e \<longrightarrow>
            verifyRepository sys s =
              (\<lparr> isValid = False,
                 issues = [''Repository verification failed: '' @ error_message e ''Unknown error''] \<rparr>,
               s\<lparr>world := w2,
                 calls := calls s @ [Status (repositoryPath s), GetRemotes (repositoryPath s) False]\<rparr>)) \<and>
         (\<forall>st remotes. r1 = Inr st \<and> r2 = Inr remotes \<longrightarrow>
            issues (fst (verifyRepository sys s)) =
              (if remotes = [] then [''No remote repositories configured''] else []) @
              (case r3 of Inl _ \<Rightarrow> [''Cannot access remote repository''] | Inr _ \<Rightarrow> []) \<and>
            snd (verifyRepository sys s) =
              s\<lparr>world := w3,
                calls := calls s @ [Status (repositoryPath s), GetRemotes (repositoryPath s) False,
                                    Fetch (repositoryPath s)]\<rparr>)"
  using assms
  by (cases r1; cases r2; cases r3)
     (simp_all add: verifyRepository_def verification_failed_def call_status_def
        call_getRemotes_def call_fetch_def invoke_eq Let_def)

theorem verifyRepository_outcome_witness:
  "verifyRepository sample_sys sample_git_service =
     (\<lparr> isValid = False,
        issues = [''No remote repositories configured'', ''Cannot access remote repository''] \<rparr>,
      sample_git_service\<lparr>calls := [Status ''/work/out'', GetRemotes ''/work/out'' False,
                                    Fetch ''/work/out'']\<rparr>) \<and>
   verifyRepository quiet_fetch_sys sample_git_service =
     (\<lparr> isValid = False, issues = [''No remote repositories configured''] \<rparr>,
      sample_git_service\<lparr>calls := [Status ''/work/out'', GetRemotes ''/work/out'' False,
                                    Fetch ''/work/out'']\<rparr>)"
proof -
  have a: "verifyRepository sample_sys sample_git_service =
     (\<lparr> isValid = False,
        issues = [''No remote repositories configured'', ''Cannot access remote repository''] \<rparr>,
      sample_git_service\<lparr>calls := [Status ''/work/out'', GetRemotes ''/work/out'' False,
                                    Fetch ''/work/out'']\<rparr>)"
    using verifyRepository_outcome [of sample_sys sample_git_service
        "Inr (sample_status [''a.json'', ''b.json''])" 0 "Inr []" 0
        "Inl (Error ''Could not resolve host'')" 0]
    by (cases "verifyRepository sample_sys sample_git_service";
        cases "fst (verifyRepository sample_sys sample_git_service)")
       (simp add: sample_defs)
  have b: "verifyRepository quiet_fetch_sys sample_git_service =
     (\<lparr> isValid = False, issues = [''No remote repositories configured''] \<rparr>,
      sample_git_service\<lparr>calls := [Status ''/work/out'', GetRemotes ''/work/out'' False,
                                    Fetch ''/work/out'']\<rparr>)"
    using verifyRepository_outcome [of quiet_fetch_sys sample_git_service
        "Inr (sample_status [''a.json'', ''b.json''])" 0 "Inr []" 0 "Inr ()" 0]
    by (cases "verifyRepository quiet_fetch_sys sample_git_service";
        cases "fst (verifyRepository quiet_fetch_sys sample_git_service)")
       (simp add: sample_defs quiet_fetch_sys_def)
  show ?thesis using a b by simp
qed

text \<open>
  Claim C8. When the remote-list query succeeds and lists no remote named \<open>origin\<close> (in
  particular when it lists none), every snapshot \<open>getRepositoryInfo\<close> returns has
  \<open>remote = "unknown"\<close>; and it does return one exactly when the three other queries
  succeed as well.
\<close>

theorem getRepositoryInfo_remote_fallback:
  assumes "git_revparse sys (repositoryPath s) [''--abbrev-ref'', ''HEAD''] (world s) = (r1, w1)"
    and "git_getRemotes sys (repositoryPath s) True w1 = (Inr remotes, w2)"
    and "\<forall>r\<in>set remotes. name r \<noteq> ''origin''"
    and "git_log sys (repositoryPath s) 1 w2 = (r3, w3)"
    and "git_status sys (repositoryPath s) w3 = (r4, w4)"
  shows "(\<forall>info s'. getRepositoryInfo sys s = (Inr info, s') \<longrightarrow> remote info = ''unknown'') \<and>
         ((\<exists>info s'. getRepositoryInfo sys s = (Inr info, s')) \<longleftrightarrow>
            \<not> isl r1 \<and> \<not> isl r3 \<and> \<not> isl r4)"
  using assms
  by (cases r1; cases r3; cases r4)
     (auto simp: getRepositoryInfo_def repository_info_def origin_remote_def find_absent
        call_revparse_def call_getRemotes_def call_log_def call_status_def invoke_eq Let_def)

theorem getRepositoryInfo_remote_fallback_witness:
  "(\<exists>info s'. getRepositoryInfo sample_sys sample_git_service = (Inr info, s')) \<and>
   remote (projr (fst (getRepositoryInfo sample_sys sample_git_service))) = ''unknown''"
  using getRepositoryInfo_remote_fallback [of sample_sys sample_git_service "Inr ''main''" 0
      "[]" 0 "Inr \<lparr> latest = None \<rparr>" 0 "Inr (sample_status [''a.json'', ''b.json''])" 0]
  by (cases "getRepositoryInfo sample_sys sample_git_service";
      cases "fst (getRepositoryInfo sample_sys sample_git_service)")
     (auto simp: sample_defs)

end
